theory Spec2Isabelle
  imports Complex_Main
begin

section \<open>Python values that cross the transport\<close>

text \<open>
  A parsed JSON body is a Python object. The code of \<^verbatim>\<open>utils/http.py\<close> looks at such
  objects through \<^verbatim>\<open>isinstance(_, dict)\<close>, \<^verbatim>\<open>dict.get\<close>, truthiness (\<^verbatim>\<open>errors or []\<close>)
  and \<^verbatim>\<open>str.lower\<close>, so the whole shape of the object is kept. Python's \<^verbatim>\<open>None\<close> is
  \<open>JNull\<close>; a \<^verbatim>\<open>dict\<close> is an association list read with \<open>map_of\<close>.
\<close>

datatype json =
    JNull
  | JBool bool
  | JInt int
  | JFloat real
  | JStr string
  | JArr "json list"
  | JObj "(string \<times> json) list"

text \<open>Python truthiness, as used by \<^verbatim>\<open>errors or []\<close>.\<close>

fun truthy :: "json \<Rightarrow> bool" where
  "truthy JNull = False"
| "truthy (JBool b) = b"
| "truthy (JInt i) = (i \<noteq> 0)"
| "truthy (JFloat r) = (r \<noteq> 0)"
| "truthy (JStr s) = (s \<noteq> [])"
| "truthy (JArr xs) = (xs \<noteq> [])"
| "truthy (JObj kvs) = (kvs \<noteq> [])"

text \<open>\<^verbatim>\<open>isinstance(v, dict)\<close> and \<^verbatim>\<open>isinstance(v, list)\<close>.\<close>

fun is_dict :: "json \<Rightarrow> bool" where
  "is_dict (JObj kvs) = True"
| "is_dict v = False"

fun is_list :: "json \<Rightarrow> bool" where
  "is_list (JArr xs) = True"
| "is_list v = False"

text \<open>\<^verbatim>\<open>d.get(key, default)\<close> on a dict given by its items.\<close>

definition dict_get :: "(string \<times> json) list \<Rightarrow> string \<Rightarrow> json \<Rightarrow> json" where
  "dict_get kvs key dflt = (case map_of kvs key of Some v \<Rightarrow> v | None \<Rightarrow> dflt)"

subsection \<open>Strings\<close>

text \<open>
  A \<open>char\<close> stands for a code point below 256. \<^verbatim>\<open>str.lower\<close> maps the capital letters
  of ASCII and of Latin-1 to their small letters and leaves every other character alone.
\<close>

definition is_upper :: "char \<Rightarrow> bool" where
  "is_upper c =
     (let n = (of_char c :: nat)
      in (65 \<le> n \<and> n \<le> 90) \<or> (192 \<le> n \<and> n \<le> 222 \<and> n \<noteq> 215))"

text \<open>
  A capital letter and its small letter are 32 apart, and the capital has that bit
  clear: adding 32 sets the sixth bit.
\<close>

definition lower_char :: "char \<Rightarrow> char" where
  "lower_char c =
     (if is_upper c
      then (case c of Char b0 b1 b2 b3 b4 b5 b6 b7 \<Rightarrow> Char b0 b1 b2 b3 b4 True b6 b7)
      else c)"

definition lower :: "string \<Rightarrow> string" where
  "lower s = map lower_char s"

text \<open>\<^verbatim>\<open>s.startswith(p)\<close> and \<^verbatim>\<open>s.startswith((p1, p2, ...))\<close>.\<close>

definition startswith :: "string \<Rightarrow> string \<Rightarrow> bool" where
  "startswith s p = (take (length p) s = p)"

definition startswith_any :: "string \<Rightarrow> string list \<Rightarrow> bool" where
  "startswith_any s ps = list_ex (startswith s) ps"

text \<open>\<^verbatim>\<open>sub in s\<close> for strings: \<open>sub\<close> occurs in \<open>s\<close> as a contiguous run.\<close>

fun contains :: "string \<Rightarrow> string \<Rightarrow> bool" where
  "contains [] sub = (sub = [])"
| "contains (c # cs) sub = (startswith (c # cs) sub \<or> contains cs sub)"

text \<open>\<^verbatim>\<open>s.rstrip("/")\<close>.\<close>

definition rstrip_slash :: "string \<Rightarrow> string" where
  "rstrip_slash s = rev (dropWhile (\<lambda>c. c = CHR ''/'') (rev s))"

text \<open>\<^verbatim>\<open>str(n)\<close> for an integer, as the f-string \<^verbatim>\<open>f"HTTP {status_code} error"\<close> needs it.\<close>

fun digits_of :: "nat \<Rightarrow> string" where
  "digits_of n =
     (if n < 10 then [''0123456789'' ! n]
      else digits_of (n div 10) @ [''0123456789'' ! (n mod 10)])"

definition str_int :: "int \<Rightarrow> string" where
  "str_int i = (if i < 0 then CHR ''-'' # digits_of (nat (- i)) else digits_of (nat i))"

subsection \<open>Floats\<close>

text \<open>
  The values of a Python \<^verbatim>\<open>float\<close>: a finite one is named by the real number it
  denotes. Comparison is the one of IEEE 754, where \<open>NaN\<close> is below and above nothing.
  \<^verbatim>\<open>min(a, b)\<close> and \<^verbatim>\<open>max(a, b)\<close> keep their first argument unless the second is strictly
  smaller, respectively larger. The integer \<^verbatim>\<open>0\<close> in a comparison with a float is
  \<open>Finite 0\<close>.
\<close>

datatype pyfloat = Finite real | PosInf | NegInf | NaN

fun float_lt :: "pyfloat \<Rightarrow> pyfloat \<Rightarrow> bool" where
  "float_lt (Finite x) (Finite y) = (x < y)"
| "float_lt (Finite x) PosInf = True"
| "float_lt NegInf (Finite y) = True"
| "float_lt NegInf PosInf = True"
| "float_lt a b = False"

definition py_min :: "pyfloat \<Rightarrow> pyfloat \<Rightarrow> pyfloat" where
  "py_min a b = (if float_lt b a then b else a)"

definition py_max :: "pyfloat \<Rightarrow> pyfloat \<Rightarrow> pyfloat" where
  "py_max a b = (if float_lt a b then b else a)"

subsection \<open>Dates\<close>

text \<open>
  A \<^verbatim>\<open>datetime\<close>, named by a number that identifies it. Only
  \<^verbatim>\<open>datetime.fromtimestamp\<close> makes one, and the code never looks inside.
\<close>

datatype datetime = Datetime int

section \<open>Exceptions (\<^verbatim>\<open>exceptions.py\<close> and the ones Python and httpx raise)\<close>

text \<open>
  One constructor per exception class, carrying what the class's \<^verbatim>\<open>__init__\<close> stores:
  the message first (whatever object the transport extracted), then the fields of the
  class. \<open>RequestError\<close> and \<open>HTTPStatusError\<close> are httpx's; the last six are
  Python's own.
\<close>

datatype exn =
    AuthenticationError json
  | ScopeError json
  | ValidationError json json
  | QuotaExceededError json "int option" "int option"
  | RateLimitError json "int option"
  | NotFoundError json
  | ServerError json int
  | NetworkError json "exn option"
  | RequestError string
  | HTTPStatusError int
  | ValueError string
  | AttributeError
  | UnboundLocalError
  | OverflowError
  | JSONDecodeError
  | UnicodeEncodeError

text \<open>The \<^verbatim>\<open>status_code\<close> attribute that \<^verbatim>\<open>NorthRelayError.__init__\<close> stores.\<close>

fun status_code :: "exn \<Rightarrow> int option" where
  "status_code (AuthenticationError m) = Some 401"
| "status_code (ScopeError m) = Some 403"
| "status_code (ValidationError m es) = Some 400"
| "status_code (QuotaExceededError m l u) = Some 429"
| "status_code (RateLimitError m ra) = Some 429"
| "status_code (NotFoundError m) = Some 404"
| "status_code (ServerError m sc) = Some sc"
| "status_code e = None"

text \<open>The \<^verbatim>\<open>errors\<close> attribute: \<^verbatim>\<open>self.errors = errors or []\<close>.\<close>

definition ValidationError_init :: "json \<Rightarrow> json \<Rightarrow> exn" where
  "ValidationError_init message errors =
     ValidationError message (if truthy errors then errors else JArr [])"

text \<open>Exception classes, for \<^verbatim>\<open>isinstance(e, (C1, C2, ...))\<close>.\<close>

datatype exn_class =
    AuthenticationError_cls
  | ScopeError_cls
  | ValidationError_cls
  | QuotaExceededError_cls
  | RateLimitError_cls
  | NotFoundError_cls
  | ServerError_cls
  | NetworkError_cls
  | RequestError_cls
  | Other_cls

fun class_of :: "exn \<Rightarrow> exn_class" where
  "class_of (AuthenticationError m) = AuthenticationError_cls"
| "class_of (ScopeError m) = ScopeError_cls"
| "class_of (ValidationError m es) = ValidationError_cls"
| "class_of (QuotaExceededError m l u) = QuotaExceededError_cls"
| "class_of (RateLimitError m ra) = RateLimitError_cls"
| "class_of (NotFoundError m) = NotFoundError_cls"
| "class_of (ServerError m sc) = ServerError_cls"
| "class_of (NetworkError m c) = NetworkError_cls"
| "class_of (RequestError m) = RequestError_cls"
| "class_of e = Other_cls"

text \<open>
  None of the classes named in a tuple of this code base has a subclass, so
  \<^verbatim>\<open>isinstance\<close> against a tuple is membership of the exception's own class.
\<close>

definition isinstance :: "exn \<Rightarrow> exn_class list \<Rightarrow> bool" where
  "isinstance e classes = (class_of e \<in> set classes)"

section \<open>What the code calls and does not define\<close>

text \<open>
  The package relies on CPython and on httpx for five operations whose results it does
  not control. They are parameters of the model, collected in one record, so that a
  theorem about every runtime is a theorem about the real one.
  \<^item> \<open>py_int\<close>: the built-in \<^verbatim>\<open>int(s)\<close> on a string; \<open>Inl\<close> is the exception it raises.
  \<^item> \<open>fromtimestamp\<close>: \<^verbatim>\<open>datetime.fromtimestamp(n)\<close>, which depends on the platform and
    on the local time zone; \<open>Inl\<close> is the exception it raises.
  \<^item> \<open>float_pow\<close>: \<^verbatim>\<open>x ** n\<close> for a float \<open>x\<close> and an integer \<open>n \<ge> 0\<close>, with the
    rounding of the platform; \<open>None\<close> is \<^verbatim>\<open>OverflowError\<close>.
  \<^item> \<open>float_mul\<close>: \<^verbatim>\<open>x * y\<close>, with its rounding; \<open>None\<close> is \<^verbatim>\<open>OverflowError\<close>.
  \<^item> \<open>AsyncClient\<close>: the constructor \<^verbatim>\<open>httpx.AsyncClient(base_url=..., timeout=...,
    headers=...)\<close>; \<open>Some e\<close> is the exception it raises, \<open>None\<close> its success.
\<close>

record runtime =
  py_int :: "string \<Rightarrow> exn + int"
  fromtimestamp :: "int \<Rightarrow> exn + datetime"
  float_pow :: "pyfloat \<Rightarrow> nat \<Rightarrow> pyfloat option"
  float_mul :: "pyfloat \<Rightarrow> pyfloat \<Rightarrow> pyfloat option"
  AsyncClient :: "string \<Rightarrow> pyfloat \<Rightarrow> (string \<times> string) list \<Rightarrow> exn option"

section \<open>The transport (\<^verbatim>\<open>utils/http.py\<close>)\<close>

text \<open>
  What the code reads of an \<^verbatim>\<open>httpx.Response\<close>: the status, \<^verbatim>\<open>headers.get\<close> (header
  names in lower case), the raw bytes \<^verbatim>\<open>content\<close>, the decoded \<^verbatim>\<open>text\<close>, and the
  outcome of \<^verbatim>\<open>response.json()\<close>, which is \<open>None\<close> when that call raises.
\<close>

record response =
  resp_status_code :: int
  resp_headers :: "string \<rightharpoonup> string"
  resp_content :: string
  resp_text :: string
  resp_json :: "json option"

text \<open>\<^verbatim>\<open>response.is_success\<close>: a 2xx status.\<close>

definition is_success :: "response \<Rightarrow> bool" where
  "is_success r = (200 \<le> resp_status_code r \<and> resp_status_code r \<le> 299)"

text \<open>\<^verbatim>\<open>response.raise_for_status()\<close> raises for every status but 2xx.\<close>

definition raise_for_status :: "response \<Rightarrow> exn + unit" where
  "raise_for_status r =
     (if is_success r then Inr () else Inl (HTTPStatusError (resp_status_code r)))"

record RateLimitInfo =
  limit :: "int option"
  remaining :: "int option"
  reset :: "datetime option"

record HttpClient =
  base_url :: string
  api_key :: string
  timeout :: pyfloat
  client_headers :: "(string \<times> string) list"
  rate_limit_info :: "RateLimitInfo option"

text \<open>
  \<^verbatim>\<open>HttpClient.__init__\<close>. The httpx client is built from the stripped URL, the time-out
  and the three headers; when its constructor raises, so does this one.
\<close>

definition HttpClient_init :: "runtime \<Rightarrow> string \<Rightarrow> string \<Rightarrow> pyfloat \<Rightarrow> exn + HttpClient" where
  "HttpClient_init rt url key tmo =
     (let hdrs =
            [(''Authorization'', ''Bearer '' @ key),
             (''Content-Type'', ''application/json''),
             (''User-Agent'', ''northrelay-python/1.1.0'')]
      in case AsyncClient rt (rstrip_slash url) tmo hdrs of
           Some e \<Rightarrow> Inl e
         | None \<Rightarrow>
             Inr \<lparr>base_url = rstrip_slash url,
                  api_key = key,
                  timeout = tmo,
                  client_headers = hdrs,
                  rate_limit_info = None\<rparr>)"

definition get_rate_limit_info :: "HttpClient \<Rightarrow> RateLimitInfo option" where
  "get_rate_limit_info self = rate_limit_info self"

text \<open>
  Truthiness of the value of \<^verbatim>\<open>headers.get(name)\<close>: the header is there and its value is
  not the empty string.
\<close>

definition header_truthy :: "string option \<Rightarrow> bool" where
  "header_truthy h = (case h of None \<Rightarrow> False | Some v \<Rightarrow> v \<noteq> [])"

text \<open>\<^verbatim>\<open>int(h) if h else None\<close>.\<close>

definition int_if_truthy :: "runtime \<Rightarrow> string option \<Rightarrow> exn + int option" where
  "int_if_truthy rt h =
     (case h of
        None \<Rightarrow> Inr None
      | Some v \<Rightarrow>
          if v = [] then Inr None
          else (case py_int rt v of
                  Inl e \<Rightarrow> Inl e
                | Inr n \<Rightarrow> Inr (Some n)))"

text \<open>\<^verbatim>\<open>datetime.fromtimestamp(int(h)) if h else None\<close>.\<close>

definition datetime_if_truthy :: "runtime \<Rightarrow> string option \<Rightarrow> exn + datetime option" where
  "datetime_if_truthy rt h =
     (case int_if_truthy rt h of
        Inl e \<Rightarrow> Inl e
      | Inr None \<Rightarrow> Inr None
      | Inr (Some n) \<Rightarrow>
          (case fromtimestamp rt n of
             Inl e \<Rightarrow> Inl e
           | Inr d \<Rightarrow> Inr (Some d)))"

text \<open>The guard of \<^verbatim>\<open>_update_rate_limit\<close>: \<^verbatim>\<open>limit or remaining or reset\<close>.\<close>

definition carries_rate_limit :: "response \<Rightarrow> bool" where
  "carries_rate_limit r =
     (header_truthy (resp_headers r ''x-ratelimit-limit'')
      \<or> header_truthy (resp_headers r ''x-ratelimit-remaining'')
      \<or> header_truthy (resp_headers r ''x-ratelimit-reset''))"

text \<open>
  \<^verbatim>\<open>HttpClient._update_rate_limit\<close>. The three arguments of \<^verbatim>\<open>RateLimitInfo(...)\<close> are
  evaluated from left to right, so the first one that raises decides the exception, and
  the field \<^verbatim>\<open>_rate_limit_info\<close> is assigned only when none did.
\<close>

definition update_rate_limit :: "runtime \<Rightarrow> HttpClient \<Rightarrow> response \<Rightarrow> exn + HttpClient" where
  "update_rate_limit rt self r =
     (let lim = resp_headers r ''x-ratelimit-limit'';
          rem = resp_headers r ''x-ratelimit-remaining'';
          rst = resp_headers r ''x-ratelimit-reset''
      in if carries_rate_limit r then
           (case int_if_truthy rt lim of
              Inl e \<Rightarrow> Inl e
            | Inr l \<Rightarrow>
                (case int_if_truthy rt rem of
                   Inl e \<Rightarrow> Inl e
                 | Inr m \<Rightarrow>
                     (case datetime_if_truthy rt rst of
                        Inl e \<Rightarrow> Inl e
                      | Inr t \<Rightarrow>
                          Inr (self\<lparr>rate_limit_info :=
                                 Some \<lparr>limit = l, remaining = m, reset = t\<rparr>\<rparr>))))
         else Inr self)"

text \<open>
  The first statement of \<^verbatim>\<open>_handle_error_response\<close>: the \<^verbatim>\<open>try\<close> block binds
  \<^verbatim>\<open>error_data\<close> as soon as \<^verbatim>\<open>response.json()\<close> returns, and \<^verbatim>\<open>error_message\<close> when
  \<^verbatim>\<open>error_data.get\<close> exists (a dict); every exception leads to the fallback message.
  \<open>error_data\<close> is \<open>None\<close> when the local variable was never bound.
\<close>

definition fallback_message :: "response \<Rightarrow> json" where
  "fallback_message r =
     JStr (if resp_text r \<noteq> [] then resp_text r
           else ''HTTP '' @ str_int (resp_status_code r) @ '' error'')"

definition error_data :: "response \<Rightarrow> json option" where
  "error_data r = resp_json r"

definition error_message :: "response \<Rightarrow> json" where
  "error_message r =
     (case resp_json r of
        Some (JObj kvs) \<Rightarrow>
          dict_get kvs ''message'' (dict_get kvs ''error'' (JStr (resp_text r)))
      | Some v \<Rightarrow> fallback_message r
      | None \<Rightarrow> fallback_message r)"

text \<open>
  \<^verbatim>\<open>HttpClient._handle_error_response\<close>, branch by branch. \<open>Inr ()\<close> is the return
  without an exception, reached only through \<^verbatim>\<open>raise_for_status\<close> on a 2xx status.
\<close>

definition handle_error_response :: "runtime \<Rightarrow> response \<Rightarrow> exn + unit" where
  "handle_error_response rt r =
     (let sc = resp_status_code r; msg = error_message r
      in if sc = 401 then Inl (AuthenticationError msg)
         else if sc = 403 then Inl (ScopeError msg)
         else if sc = 400 then
           (case error_data r of
              None \<Rightarrow> Inl UnboundLocalError
            | Some d \<Rightarrow>
                Inl (ValidationError_init msg
                       (case d of JObj kvs \<Rightarrow> dict_get kvs ''errors'' JNull | _ \<Rightarrow> JNull)))
         else if sc = 404 then Inl (NotFoundError msg)
         else if sc = 429 then
           (let retry_after = resp_headers r ''retry-after''
            in case msg of
                 JStr m \<Rightarrow>
                   if contains (lower m) ''quota'' then Inl (QuotaExceededError msg None None)
                   else (case int_if_truthy rt retry_after of
                           Inl e \<Rightarrow> Inl e
                         | Inr ra \<Rightarrow> Inl (RateLimitError msg ra))
               | _ \<Rightarrow> Inl AttributeError)
         else if 500 \<le> sc \<and> sc < 600 then Inl (ServerError msg sc)
         else raise_for_status r)"

text \<open>
  \<^verbatim>\<open>HttpClient.request\<close>. Its last argument is what \<^verbatim>\<open>self.client.request(...)\<close> did:
  it raised (\<open>Inl\<close>) or returned a response (\<open>Inr\<close>). The \<^verbatim>\<open>except httpx.RequestError\<close>
  clause spans the whole body; the client is returned as the call leaves it.
\<close>

definition except_RequestError :: "exn \<Rightarrow> exn" where
  "except_RequestError e =
     (case e of
        RequestError m \<Rightarrow> NetworkError (JStr (''Network error: '' @ m)) (Some e)
      | _ \<Rightarrow> e)"

definition request ::
  "runtime \<Rightarrow> HttpClient \<Rightarrow> exn + response \<Rightarrow> (exn + response) \<times> HttpClient" where
  "request rt self sent =
     (case sent of
        Inl e \<Rightarrow> (Inl (except_RequestError e), self)
      | Inr r \<Rightarrow>
          (case update_rate_limit rt self r of
             Inl e \<Rightarrow> (Inl (except_RequestError e), self)
           | Inr self' \<Rightarrow>
               if \<not> is_success r then
                 (case handle_error_response rt r of
                    Inl e \<Rightarrow> (Inl (except_RequestError e), self')
                  | Inr u \<Rightarrow> (Inr r, self'))
               else (Inr r, self')))"

text \<open>\<^verbatim>\<open>response.json()\<close> as a call that may raise.\<close>

definition response_json :: "response \<Rightarrow> exn + json" where
  "response_json r = (case resp_json r of None \<Rightarrow> Inl JSONDecodeError | Some v \<Rightarrow> Inr v)"

text \<open>\<^verbatim>\<open>HttpClient.get\<close> (and \<^verbatim>\<open>post\<close>, \<^verbatim>\<open>patch\<close>, \<^verbatim>\<open>put\<close>, which differ in the verb only).\<close>

definition get ::
  "runtime \<Rightarrow> HttpClient \<Rightarrow> exn + response \<Rightarrow> (exn + json) \<times> HttpClient" where
  "get rt self sent =
     (case request rt self sent of
        (Inl e, self') \<Rightarrow> (Inl e, self')
      | (Inr r, self') \<Rightarrow> (response_json r, self'))"





section \<open>The resilient invoker (\<^verbatim>\<open>utils/retry.py\<close>)\<close>

record RetryConfig =
  max_attempts :: int
  initial_delay :: pyfloat
  max_delay :: pyfloat
  exponential_base :: pyfloat

definition DEFAULT_RETRY_CONFIG :: RetryConfig where
  "DEFAULT_RETRY_CONFIG =
     \<lparr>max_attempts = 3, initial_delay = Finite 1, max_delay = Finite 10,
      exponential_base = Finite 2\<rparr>"

text \<open>
  \<^verbatim>\<open>is_retryable_error\<close>, as \<^verbatim>\<open>retry.py\<close> defines it. No other function of the package
  calls it.
\<close>

definition is_retryable_error :: "exn \<Rightarrow> bool" where
  "is_retryable_error exception =
     (if isinstance exception [NetworkError_cls, ServerError_cls] then True
      else (case exception of
              RateLimitError m retry_after \<Rightarrow> retry_after \<noteq> None
            | _ \<Rightarrow> False))"

text \<open>
  The three tenacity strategies that \<^verbatim>\<open>create_retry_decorator\<close> passes to \<^verbatim>\<open>retry(...)\<close>.
  Each is a function of the number of the attempt that has just failed, counted from 1.
  \<^item> \<^verbatim>\<open>stop_after_attempt(n)\<close>: \<^verbatim>\<open>attempt_number >= n\<close>.
  \<^item> \<^verbatim>\<open>wait_exponential(multiplier, max, exp_base)\<close> with its default \<^verbatim>\<open>min=0\<close>:
    \<^verbatim>\<open>exp = exp_base ** (attempt_number - 1)\<close> and \<^verbatim>\<open>result = multiplier * exp\<close> inside a
    \<^verbatim>\<open>try\<close> whose \<^verbatim>\<open>except OverflowError\<close> returns \<^verbatim>\<open>max\<close>; otherwise
    \<^verbatim>\<open>max(max(0, min), min(result, max))\<close>.
  \<^item> \<^verbatim>\<open>retry_if_exception_type(types)\<close>: \<^verbatim>\<open>isinstance(e, types)\<close> for a failed
    attempt, never for a returned value.
\<close>

definition stop_after_attempt :: "int \<Rightarrow> int \<Rightarrow> bool" where
  "stop_after_attempt max_attempt_number attempt_number =
     (attempt_number \<ge> max_attempt_number)"

definition wait_exponential :: "runtime \<Rightarrow> pyfloat \<Rightarrow> pyfloat \<Rightarrow> pyfloat \<Rightarrow> int \<Rightarrow> pyfloat" where
  "wait_exponential rt multiplier mx exp_base attempt_number =
     (case float_pow rt exp_base (nat (attempt_number - 1)) of
        None \<Rightarrow> mx
      | Some p \<Rightarrow>
          (case float_mul rt multiplier p of
             None \<Rightarrow> mx
           | Some result \<Rightarrow>
               py_max (py_max (Finite 0) (Finite 0)) (py_min result mx)))"

definition retry_if_exception_type :: "exn_class list \<Rightarrow> exn \<Rightarrow> bool" where
  "retry_if_exception_type exception_types e = isinstance e exception_types"

text \<open>
  What one run of the invoker leaves behind: the value returned or the exception
  raised, the state of the world after the last attempt, the number of attempts made,
  and the delays slept, in order (the first one precedes attempt 2).
\<close>

record ('a, 's) run =
  outcome :: "exn + 'a"
  final :: 's
  attempts :: int
  slept :: "pyfloat list"

text \<open>
  The loop of tenacity's \<^verbatim>\<open>AsyncRetrying\<close> with the strategies above and
  \<^verbatim>\<open>reraise=True\<close>: await the operation; a returned value ends the loop; an exception
  the \<^verbatim>\<open>retry\<close> strategy rejects is raised as it is; one it accepts is raised as it is
  too when \<^verbatim>\<open>stop\<close> holds, and otherwise the loop sleeps for \<^verbatim>\<open>wait\<close> and calls again.
  The operation is a function of the state of the world \<open>'s\<close> (the client, the
  network), which it may change.
\<close>

function retrying ::
  "runtime \<Rightarrow> int \<Rightarrow> pyfloat \<Rightarrow> pyfloat \<Rightarrow> pyfloat \<Rightarrow> ('s \<Rightarrow> (exn + 'a) \<times> 's) \<Rightarrow> int
     \<Rightarrow> pyfloat list \<Rightarrow> 's \<Rightarrow> ('a, 's) run" where
  "retrying rt max_att init_delay mx_delay exp_base func attempt_number sleeps s =
     (let res = fst (func s); s' = snd (func s)
      in case res of
           Inr v \<Rightarrow>
             \<lparr>outcome = Inr v, final = s', attempts = attempt_number, slept = sleeps\<rparr>
         | Inl e \<Rightarrow>
             if \<not> retry_if_exception_type
                     [NetworkError_cls, ServerError_cls, RateLimitError_cls] e
             then \<lparr>outcome = Inl e, final = s', attempts = attempt_number, slept = sleeps\<rparr>
             else if stop_after_attempt max_att attempt_number
             then \<lparr>outcome = Inl e, final = s', attempts = attempt_number, slept = sleeps\<rparr>
             else retrying rt max_att init_delay mx_delay exp_base func (attempt_number + 1)
                    (sleeps @
                     [wait_exponential rt init_delay mx_delay exp_base attempt_number])
                    s')"
  by pat_completeness auto
termination
  by (relation "measure (\<lambda>(rt, m, i, d, b, f, n, sl, s). nat (m - n))")
     (auto simp: stop_after_attempt_def)

declare retrying.simps [simp del]

text \<open>
  The operand of \<^verbatim>\<open>with_retry\<close>. The call sites pass either a function declared with
  \<^verbatim>\<open>async def\<close>, or a \<^verbatim>\<open>lambda\<close> whose call only builds the coroutine of a transport
  method: its body runs when that coroutine is awaited. Both carry the effect of the
  body.
\<close>

datatype ('a, 's) operand =
    Coroutine_function "'s \<Rightarrow> (exn + 'a) \<times> 's"
  | Plain_function "'s \<Rightarrow> (exn + 'a) \<times> 's"

fun iscoroutinefunction :: "('a, 's) operand \<Rightarrow> bool" where
  "iscoroutinefunction (Coroutine_function f) = True"
| "iscoroutinefunction (Plain_function f) = False"

fun body_of :: "('a, 's) operand \<Rightarrow> 's \<Rightarrow> (exn + 'a) \<times> 's" where
  "body_of (Coroutine_function f) = f"
| "body_of (Plain_function f) = f"

text \<open>
  \<^verbatim>\<open>create_retry_decorator\<close>: the decorator that \<^verbatim>\<open>retry(...)\<close> returns, here applied to
  an operand, called and awaited. tenacity wraps a coroutine function in
  \<^verbatim>\<open>AsyncRetrying\<close>, whose loop awaits each attempt. Any other callable gets the
  synchronous \<^verbatim>\<open>Retrying\<close>: its single attempt is the call that builds the coroutine,
  which returns without an exception, so the loop ends at once with nothing slept; the
  body then runs when the caller awaits that coroutine, once and outside every loop.
\<close>

definition create_retry_decorator ::
  "runtime \<Rightarrow> int \<Rightarrow> pyfloat \<Rightarrow> pyfloat \<Rightarrow> pyfloat \<Rightarrow> ('a, 's) operand \<Rightarrow> 's
     \<Rightarrow> ('a, 's) run" where
  "create_retry_decorator rt max_att init_delay mx_delay exp_base func s =
     (if iscoroutinefunction func
      then retrying rt max_att init_delay mx_delay exp_base (body_of func) 1 [] s
      else \<lparr>outcome = fst (body_of func s), final = snd (body_of func s),
            attempts = 1, slept = []\<rparr>)"

text \<open>\<^verbatim>\<open>with_retry\<close>: build the decorator, wrap the operation, call it and await it.\<close>

definition with_retry ::
  "runtime \<Rightarrow> ('a, 's) operand \<Rightarrow> int \<Rightarrow> pyfloat \<Rightarrow> pyfloat \<Rightarrow> pyfloat \<Rightarrow> 's
     \<Rightarrow> ('a, 's) run" where
  "with_retry rt func max_att init_delay mx_delay exp_base s =
     (let retry_decorator = create_retry_decorator rt max_att init_delay mx_delay exp_base
      in retry_decorator func s)"

section \<open>The client (\<^verbatim>\<open>client.py\<close>)\<close>

record NorthRelay =
  http :: HttpClient
  retry_config :: RetryConfig

text \<open>
  \<^verbatim>\<open>NorthRelay.__init__\<close>: the two checks of the key, then the transport and the retry
  configuration. The resources only keep references to these two objects.
\<close>

definition NorthRelay_init ::
  "runtime \<Rightarrow> string \<Rightarrow> string \<Rightarrow> pyfloat \<Rightarrow> int \<Rightarrow> pyfloat \<Rightarrow> pyfloat \<Rightarrow> exn + NorthRelay" where
  "NorthRelay_init rt key url tmo max_retries retry_delay max_retry_delay =
     (if key = [] then
        Inl (ValueError
          (''API key is required. Get your API key at '' @
           ''https://app.northrelay.ca/settings/api-keys''))
      else if \<not> startswith_any key [''nr_live_'', ''nr_test_''] then
        Inl (ValueError
          (''Invalid API key format. API keys must start with '' @
           [CHR 0x22] @ ''nr_live_'' @ [CHR 0x22] @ '' or '' @
           [CHR 0x22] @ ''nr_test_'' @ [CHR 0x22]))
      else
        (case HttpClient_init rt url key tmo of
           Inl e \<Rightarrow> Inl e
         | Inr h \<Rightarrow>
             Inr \<lparr>http = h,
                  retry_config =
                    \<lparr>max_attempts = max_retries, initial_delay = retry_delay,
                     max_delay = max_retry_delay, exponential_base = Finite 2\<rparr>\<rparr>))"

section \<open>Operations, responses and a runtime used as examples\<close>

text \<open>An operation that raises the same exception at every call and changes nothing.\<close>

definition always_raises :: "exn \<Rightarrow> 's \<Rightarrow> (exn + 'a) \<times> 's" where
  "always_raises e s = (Inl e, s)"

text \<open>An operation together with a count of the times it ran.\<close>

definition counted :: "('s \<Rightarrow> (exn + 'a) \<times> 's) \<Rightarrow> 's \<times> nat \<Rightarrow> (exn + 'a) \<times> ('s \<times> nat)" where
  "counted f = (\<lambda>(s, n). (fst (f s), (snd (f s), Suc n)))"

text \<open>
  A runtime for the examples. It is meant for the arguments the examples pass and says
  what CPython and httpx do there: \<^verbatim>\<open>int\<close> on one to eighteen ASCII digits; powers and
  products of small integers, which binary floating point computes exactly; the
  construction of a client with the default URL, where httpx encodes each header value
  as ASCII and raises \<^verbatim>\<open>UnicodeEncodeError\<close> when it cannot. No example converts a time
  stamp. On other arguments the choices below are placeholders.
\<close>

fun digits_value :: "string \<Rightarrow> nat \<Rightarrow> nat option" where
  "digits_value [] acc = Some acc"
| "digits_value (c # cs) acc =
     (let n = (of_char c :: nat)
      in if 48 \<le> n \<and> n \<le> 57 then digits_value cs (10 * acc + (n - 48)) else None)"

definition example_int :: "string \<Rightarrow> exn + int" where
  "example_int s =
     (if s = [] \<or> 18 < length s then Inl (ValueError s)
      else (case digits_value s 0 of None \<Rightarrow> Inl (ValueError s) | Some n \<Rightarrow> Inr (int n)))"

definition example_pow :: "pyfloat \<Rightarrow> nat \<Rightarrow> pyfloat option" where
  "example_pow x n = (case x of Finite r \<Rightarrow> Some (Finite (r ^ n)) | _ \<Rightarrow> Some x)"

definition example_mul :: "pyfloat \<Rightarrow> pyfloat \<Rightarrow> pyfloat option" where
  "example_mul x y =
     (case (x, y) of (Finite r, Finite q) \<Rightarrow> Some (Finite (r * q)) | _ \<Rightarrow> Some NaN)"

definition is_ascii :: "string \<Rightarrow> bool" where
  "is_ascii s = list_all (\<lambda>c. (of_char c :: nat) < 128) s"

definition example_AsyncClient :: "string \<Rightarrow> pyfloat \<Rightarrow> (string \<times> string) list \<Rightarrow> exn option" where
  "example_AsyncClient url tmo hdrs =
     (if list_all (\<lambda>kv. is_ascii (snd kv)) hdrs then None else Some UnicodeEncodeError)"

definition example_runtime :: runtime where
  "example_runtime =
     \<lparr>py_int = example_int,
      fromtimestamp = (\<lambda>n. Inr (Datetime n)),
      float_pow = example_pow,
      float_mul = example_mul,
      AsyncClient = example_AsyncClient\<rparr>"

text \<open>Responses used as examples. \<open>quoted\<close> puts a string between double quotes.\<close>

definition quoted :: "string \<Rightarrow> string" where
  "quoted s = CHR 0x22 # s @ [CHR 0x22]"

definition json_response ::
  "int \<Rightarrow> (string \<rightharpoonup> string) \<Rightarrow> string \<Rightarrow> json \<Rightarrow> response" where
  "json_response sc hdrs body v =
     \<lparr>resp_status_code = sc, resp_headers = hdrs, resp_content = body, resp_text = body,
      resp_json = Some v\<rparr>"

definition plain_response :: "int \<Rightarrow> (string \<rightharpoonup> string) \<Rightarrow> string \<Rightarrow> response" where
  "plain_response sc hdrs body =
     \<lparr>resp_status_code = sc, resp_headers = hdrs, resp_content = body, resp_text = body,
      resp_json = None\<rparr>"

text \<open>A 400 whose body is not JSON, as a proxy or a load balancer sends it.\<close>

definition bad_request_plain :: response where
  "bad_request_plain = plain_response 400 Map.empty ''Bad Request''"

text \<open>A 400 whose body names the offending fields in an object.\<close>

definition bad_request_fields :: response where
  "bad_request_fields =
     json_response 400 Map.empty
       (''{'' @ quoted ''message'' @ '': '' @ quoted ''Validation failed'' @ '', '' @
        quoted ''errors'' @ '': {'' @ quoted ''email'' @ '': '' @ quoted ''is required'' @
        ''}}'')
       (JObj [(''message'', JStr ''Validation failed''),
              (''errors'', JObj [(''email'', JStr ''is required'')])])"

text \<open>A 400 with a list of field errors.\<close>

definition bad_request_list :: response where
  "bad_request_list =
     json_response 400 Map.empty
       (''{'' @ quoted ''message'' @ '': '' @ quoted ''Validation failed'' @ '', '' @
        quoted ''errors'' @ '': [{'' @ quoted ''field'' @ '': '' @ quoted ''email'' @
        ''}]}'')
       (JObj [(''message'', JStr ''Validation failed''),
              (''errors'', JArr [JObj [(''field'', JStr ''email'')]])])"

text \<open>
  A body that nests the error in an object under \<^verbatim>\<open>"error"\<close>, sent with status 429 and
  with status 503.
\<close>

definition nested_error :: "int \<Rightarrow> response" where
  "nested_error sc =
     json_response sc [''retry-after'' \<mapsto> ''30'']
       (''{'' @ quoted ''error'' @ '': {'' @ quoted ''code'' @ '': '' @
        quoted ''rate_limited'' @ ''}}'')
       (JObj [(''error'', JObj [(''code'', JStr ''rate_limited'')])])"

text \<open>A 429 for a rate limit, with and without \<^verbatim>\<open>retry-after\<close>, and one for a quota.\<close>

definition too_many_retry_after :: response where
  "too_many_retry_after =
     json_response 429 [''retry-after'' \<mapsto> ''30'']
       (''{'' @ quoted ''message'' @ '': '' @ quoted ''Too many requests'' @ ''}'')
       (JObj [(''message'', JStr ''Too many requests'')])"

definition too_many_bare :: response where
  "too_many_bare =
     json_response 429 Map.empty
       (''{'' @ quoted ''message'' @ '': '' @ quoted ''Too many requests'' @ ''}'')
       (JObj [(''message'', JStr ''Too many requests'')])"

definition quota_reached :: response where
  "quota_reached =
     json_response 429 [''retry-after'' \<mapsto> ''30'']
       (''{'' @ quoted ''message'' @ '': '' @ quoted ''Monthly QUOTA reached'' @ ''}'')
       (JObj [(''message'', JStr ''Monthly QUOTA reached'')])"

text \<open>A 503 without a JSON body.\<close>

definition unavailable :: response where
  "unavailable = plain_response 503 Map.empty ''Service Unavailable''"

text \<open>
  Three successful responses: one with rate-limit headers, one with none, one whose
  only rate-limit header has an empty value.
\<close>

definition ok_with_limits :: response where
  "ok_with_limits =
     json_response 200
       [''x-ratelimit-limit'' \<mapsto> ''100'', ''x-ratelimit-remaining'' \<mapsto> ''99'']
       ''{}'' (JObj [])"





text \<open>A client as its constructor leaves it.\<close>

definition fresh_client :: HttpClient where
  "fresh_client =
     \<lparr>base_url = ''https://app.northrelay.ca'',
      api_key = ''nr_test_x'',
      timeout = Finite 30,
      client_headers =
        [(''Authorization'', ''Bearer nr_test_x''),
         (''Content-Type'', ''application/json''),
         (''User-Agent'', ''northrelay-python/1.1.0'')],
      rate_limit_info = None\<rparr>"

text \<open>
  The operation "call the transport once", at a time when the network answers every
  request with the same response.
\<close>

definition call_once ::
  "runtime \<Rightarrow> response \<Rightarrow> HttpClient \<Rightarrow> (exn + response) \<times> HttpClient" where
  "call_once rt r self = request rt self (Inr r)"

section \<open>Strings and header values\<close>

lemma startswith_iff: "startswith s p \<longleftrightarrow> (\<exists>rest. s = p @ rest)"
  unfolding startswith_def
  by (metis append_eq_conv_conj append_take_drop_id)

lemma startswith_any_prefixes:
  "startswith_any key [''nr_live_'', ''nr_test_''] \<longleftrightarrow>
     (\<exists>rest. key = ''nr_live_'' @ rest) \<or> (\<exists>rest. key = ''nr_test_'' @ rest)"
  by (simp add: startswith_any_def startswith_iff)




lemmas example_defs = json_response_def plain_response_def quoted_def

lemmas lower_defs = lower_def lower_char_def is_upper_def startswith_def

lemma example_runtime_fields:
  "py_int example_runtime = example_int"
  "float_pow example_runtime = example_pow"
  "float_mul example_runtime = example_mul"
  "AsyncClient example_runtime = example_AsyncClient"
  by (simp_all add: example_runtime_def)

lemma example_int_values:
  "example_int ''100'' = Inr 100"
  "example_int ''99'' = Inr 99"
  "example_int ''30'' = Inr 30"
  by (simp_all add: example_int_def)

text \<open>The client of the examples is what the constructor returns for the test key.\<close>

lemma fresh_client_constructed:
  "HttpClient_init example_runtime ''https://app.northrelay.ca'' ''nr_test_x'' (Finite 30)
     = Inr fresh_client"
  by (simp add: HttpClient_init_def fresh_client_def rstrip_slash_def
        example_runtime_fields example_AsyncClient_def is_ascii_def)

section \<open>The snapshot of the rate limit\<close>









section \<open>Classification by status\<close>

lemma classify_401:
  "resp_status_code r = 401 \<Longrightarrow>
   handle_error_response rt r = Inl (AuthenticationError (error_message r))"
  by (simp add: handle_error_response_def Let_def)

lemma classify_403:
  "resp_status_code r = 403 \<Longrightarrow>
   handle_error_response rt r = Inl (ScopeError (error_message r))"
  by (simp add: handle_error_response_def Let_def)

lemma classify_404:
  "resp_status_code r = 404 \<Longrightarrow>
   handle_error_response rt r = Inl (NotFoundError (error_message r))"
  by (simp add: handle_error_response_def Let_def)

text \<open>A 400 becomes a \<^verbatim>\<open>ValidationError\<close> when the body was parsed.\<close>

lemma classify_400_parsed:
  "resp_status_code r = 400 \<Longrightarrow> resp_json r = Some d \<Longrightarrow>
   handle_error_response rt r =
     Inl (ValidationError_init (error_message r)
            (case d of JObj kvs \<Rightarrow> dict_get kvs ''errors'' JNull | _ \<Rightarrow> JNull))"
  by (simp add: handle_error_response_def Let_def error_data_def)

lemma classify_server:
  "500 \<le> resp_status_code r \<Longrightarrow> resp_status_code r \<le> 599 \<Longrightarrow>
   handle_error_response rt r = Inl (ServerError (error_message r) (resp_status_code r))"
  by (simp add: handle_error_response_def Let_def)

text \<open>
  A 429 whose extracted message is a string: a quota when the message says so, and
  otherwise a rate limit with what \<^verbatim>\<open>int\<close> makes of a non-empty \<^verbatim>\<open>retry-after\<close>.
\<close>

lemma classify_429_string_message:
  assumes "resp_status_code r = 429" and "error_message r = JStr msg"
  shows "handle_error_response rt r =
     (if contains (lower msg) ''quota'' then Inl (QuotaExceededError (JStr msg) None None)
      else (case int_if_truthy rt (resp_headers r ''retry-after'') of
              Inl e \<Rightarrow> Inl e
            | Inr ra \<Rightarrow> Inl (RateLimitError (JStr msg) ra)))"
  using assms by (simp add: handle_error_response_def Let_def)

text \<open>A 429 whose extracted message is not a string is not classified.\<close>

lemma classify_429_other_message:
  assumes "resp_status_code r = 429" and "\<forall>m. error_message r \<noteq> JStr m"
  shows "handle_error_response rt r = Inl AttributeError"
  using assms by (cases "error_message r") (simp_all add: handle_error_response_def Let_def)

text \<open>What the branch for status 400 stores in a \<^verbatim>\<open>ValidationError\<close>.\<close>

lemma validation_error_of_400:
  assumes "resp_status_code r = 400"
    and "handle_error_response rt r = Inl (ValidationError msg es)"
  shows "\<exists>d. resp_json r = Some d
           \<and> msg = error_message r
           \<and> es = (let v = (case d of JObj kvs \<Rightarrow> dict_get kvs ''errors'' JNull
                                      | _ \<Rightarrow> JNull)
                     in if truthy v then v else JArr [])"
  using assms
  by (auto simp: handle_error_response_def Let_def error_data_def ValidationError_init_def
        split: option.splits)

section \<open>The loop of the invoker\<close>

lemma retrying_returns:
  "fst (func s) = Inr v \<Longrightarrow>
   retrying rt m i d b func n sl s =
     \<lparr>outcome = Inr v, final = snd (func s), attempts = n, slept = sl\<rparr>"
  by (subst retrying.simps) (simp add: Let_def)

lemma retrying_rejects:
  "fst (func s) = Inl e \<Longrightarrow>
   \<not> retry_if_exception_type [NetworkError_cls, ServerError_cls, RateLimitError_cls] e \<Longrightarrow>
   retrying rt m i d b func n sl s =
     \<lparr>outcome = Inl e, final = snd (func s), attempts = n, slept = sl\<rparr>"
  by (subst retrying.simps) (simp add: Let_def)

lemma retrying_stops:
  "fst (func s) = Inl e \<Longrightarrow> m \<le> n \<Longrightarrow>
   retrying rt m i d b func n sl s =
     \<lparr>outcome = Inl e, final = snd (func s), attempts = n, slept = sl\<rparr>"
  by (subst retrying.simps) (simp add: Let_def stop_after_attempt_def)

lemma retrying_again:
  "fst (func s) = Inl e \<Longrightarrow>
   retry_if_exception_type [NetworkError_cls, ServerError_cls, RateLimitError_cls] e \<Longrightarrow>
   n < m \<Longrightarrow>
   retrying rt m i d b func n sl s =
     retrying rt m i d b func (n + 1) (sl @ [wait_exponential rt i d b n]) (snd (func s))"
  by (subst retrying.simps) (simp add: Let_def stop_after_attempt_def)

text \<open>The attempt counter only grows, and it stops at the bound of the policy.\<close>

lemma retrying_attempts_ge: "n \<le> attempts (retrying rt m i d b func n sl s)"
proof (induction rt m i d b func n sl s rule: retrying.induct)
  case (1 rt m i d b func n sl s)
  show ?case
    apply (subst retrying.simps)
    using 1 by (auto simp: Let_def split: sum.splits)
qed

lemma retrying_attempts_le: "attempts (retrying rt m i d b func n sl s) \<le> max n m"
proof (induction rt m i d b func n sl s rule: retrying.induct)
  case (1 rt m i d b func n sl s)
  show ?case
    apply (subst retrying.simps)
    using 1 by (auto simp: Let_def stop_after_attempt_def split: sum.splits)
qed

text \<open>
  The delays slept are the values of the wait strategy at the attempts that failed and
  were followed by another attempt: all attempts but the last.
\<close>

lemma retrying_slept:
  "slept (retrying rt m i d b func n sl s) =
     sl @ map (wait_exponential rt i d b)
            [n .. attempts (retrying rt m i d b func n sl s) - 1]"
proof (induction rt m i d b func n sl s rule: retrying.induct)
  case (1 rt m i d b func n sl s)
  let ?again =
    "retrying rt m i d b func (n + 1) (sl @ [wait_exponential rt i d b n]) (snd (func s))"
  have "n + 1 \<le> attempts ?again"
    by (rule retrying_attempts_ge)
  then have upto: "[n .. attempts ?again - 1] = n # [n + 1 .. attempts ?again - 1]"
    by (simp add: upto_rec1)
  show ?case
    apply (subst (1 2) retrying.simps)
    using 1 upto by (auto simp: Let_def split: sum.splits)
qed

text \<open>
  The attempts counted by the loop are calls of the operation: an operation that
  counts its own runs has run once per attempt.
\<close>

lemma retrying_counts_calls:
  "snd (final (retrying rt m i d b (counted f) n sl (s, c))) =
     c + nat (attempts (retrying rt m i d b (counted f) n sl (s, c)) - n) + 1"
proof (induction "nat (m - n)" arbitrary: n sl s c)
  case 0
  then have le: "m \<le> n" by simp
  show ?case
  proof (cases "fst (counted f (s, c))")
    case (Inr v)
    then show ?thesis
      by (simp add: retrying_returns) (simp add: counted_def)
  next
    case (Inl e)
    then show ?thesis
      using le by (simp add: retrying_stops) (simp add: counted_def)
  qed
next
  case (Suc k)
  then have lt: "n < m" and k: "k = nat (m - (n + 1))" by simp_all
  show ?case
  proof (cases "fst (counted f (s, c))")
    case (Inr v)
    then show ?thesis
      by (simp add: retrying_returns) (simp add: counted_def)
  next
    case (Inl e)
    show ?thesis
    proof (cases "retry_if_exception_type
                    [NetworkError_cls, ServerError_cls, RateLimitError_cls] e")
      case False
      then show ?thesis
        using Inl by (simp add: retrying_rejects) (simp add: counted_def)
    next
      case True
      let ?next = "retrying rt m i d b (counted f) (n + 1)
                     (sl @ [wait_exponential rt i d b n]) (snd (f s), Suc c)"
      have step: "retrying rt m i d b (counted f) n sl (s, c) = ?next"
        using Inl True lt by (simp add: retrying_again) (simp add: counted_def)
      have "snd (final ?next) = Suc c + nat (attempts ?next - (n + 1)) + 1"
        by (rule Suc.hyps(1) [OF k])
      moreover have "n + 1 \<le> attempts ?next"
        by (rule retrying_attempts_ge)
      ultimately show ?thesis
        unfolding step by simp
    qed
  qed
qed

text \<open>
  An exception that the retry strategy accepts reaches the caller only when the
  attempts of the policy are used up.
\<close>

lemma retrying_exhausted:
  "outcome (retrying rt m i d b func n sl s) = Inl e \<Longrightarrow>
   retry_if_exception_type [NetworkError_cls, ServerError_cls, RateLimitError_cls] e \<Longrightarrow>
   m \<le> attempts (retrying rt m i d b func n sl s)"
proof (induction rt m i d b func n sl s rule: retrying.induct)
  case (1 rt m i d b func n sl s)
  show ?case
  proof (cases "fst (func s)")
    case (Inr v)
    then show ?thesis using "1.prems" by (simp add: retrying_returns)
  next
    case (Inl e')
    show ?thesis
    proof (cases "retry_if_exception_type
                    [NetworkError_cls, ServerError_cls, RateLimitError_cls] e'")
      case False
      then show ?thesis using Inl "1.prems" by (simp add: retrying_rejects)
    next
      case True
      show ?thesis
      proof (cases "n < m")
        case False
        then show ?thesis using Inl by (simp add: retrying_stops)
      next
        case lt: True
        have again: "retrying rt m i d b func n sl s =
          retrying rt m i d b func (n + 1) (sl @ [wait_exponential rt i d b n])
            (snd (func s))"
          using Inl True lt by (rule retrying_again)
        show ?thesis
          unfolding again
          using "1.IH" [OF refl refl Inl] True lt "1.prems"
          by (simp add: again stop_after_attempt_def)
      qed
    qed
  qed
qed

text \<open>An operation that fails at every call makes the invoker fail, with one of its errors.\<close>

lemma retrying_all_fail:
  "(\<forall>t. \<exists>e. fst (func t) = Inl e \<and> P e) \<Longrightarrow>
   \<exists>e. outcome (retrying rt m i d b func n sl s) = Inl e \<and> P e"
proof (induction rt m i d b func n sl s rule: retrying.induct)
  case (1 rt m i d b func n sl s)
  from "1.prems" obtain e where e: "fst (func s) = Inl e" "P e"
    by blast
  show ?case
  proof (cases "retry_if_exception_type
                  [NetworkError_cls, ServerError_cls, RateLimitError_cls] e \<and> n < m")
    case True
    then have "retrying rt m i d b func n sl s =
       retrying rt m i d b func (n + 1) (sl @ [wait_exponential rt i d b n]) (snd (func s))"
      using e by (simp add: retrying_again)
    then show ?thesis
      using "1.IH" [OF refl refl e(1)] True "1.prems" by (simp add: stop_after_attempt_def)
  next
    case False
    then have "outcome (retrying rt m i d b func n sl s) = Inl e"
      using e by (auto simp: retrying_rejects retrying_stops)
    then show ?thesis using e by blast
  qed
qed

subsection \<open>\<^verbatim>\<open>with_retry\<close> on the two kinds of operand\<close>

lemma with_retry_coroutine_function:
  "with_retry rt (Coroutine_function f) m i d b s = retrying rt m i d b f 1 [] s"
  by (simp add: with_retry_def create_retry_decorator_def)

lemma with_retry_plain_function:
  "with_retry rt (Plain_function f) m i d b s =
     \<lparr>outcome = fst (f s), final = snd (f s), attempts = 1, slept = []\<rparr>"
  by (simp add: with_retry_def create_retry_decorator_def)

lemma with_retry_slept:
  "slept (with_retry rt func m i d b s) =
     map (wait_exponential rt i d b) [1 .. attempts (with_retry rt func m i d b s) - 1]"
  by (cases func)
    (simp_all add: with_retry_coroutine_function with_retry_plain_function retrying_slept)

lemma with_retry_attempts_ge: "1 \<le> attempts (with_retry rt func m i d b s)"
  by (cases func)
    (simp_all add: with_retry_coroutine_function with_retry_plain_function
       retrying_attempts_ge)

lemma with_retry_attempts_le: "attempts (with_retry rt func m i d b s) \<le> max 1 m"
  by (cases func)
    (simp_all add: with_retry_coroutine_function with_retry_plain_function
       retrying_attempts_le)

text \<open>Each attempt is one call of the operand, for either kind of operand.\<close>

lemma with_retry_counts_calls:
  "snd (final (with_retry rt (Coroutine_function (counted f)) m i d b (s, c))) =
     c + nat (attempts (with_retry rt (Coroutine_function (counted f)) m i d b (s, c)))"
  "snd (final (with_retry rt (Plain_function (counted f)) m i d b (s, c))) =
     c + nat (attempts (with_retry rt (Plain_function (counted f)) m i d b (s, c)))"
proof -
  let ?r = "retrying rt m i d b (counted f) 1 [] (s, c)"
  have "snd (final ?r) = c + nat (attempts ?r - 1) + 1"
    by (rule retrying_counts_calls)
  moreover have "1 \<le> attempts ?r"
    by (rule retrying_attempts_ge)
  ultimately show
    "snd (final (with_retry rt (Coroutine_function (counted f)) m i d b (s, c))) =
       c + nat (attempts (with_retry rt (Coroutine_function (counted f)) m i d b (s, c)))"
    by (simp add: with_retry_coroutine_function)
  show "snd (final (with_retry rt (Plain_function (counted f)) m i d b (s, c))) =
     c + nat (attempts (with_retry rt (Plain_function (counted f)) m i d b (s, c)))"
    by (simp add: with_retry_plain_function counted_def)
qed

text \<open>The first attempt is the only one when its exception is not of a retried class.\<close>

lemma with_retry_single_attempt:
  "fst (body_of func s) = Inl e \<Longrightarrow>
   \<not> retry_if_exception_type [NetworkError_cls, ServerError_cls, RateLimitError_cls] e \<Longrightarrow>
   with_retry rt func m i d b s =
     \<lparr>outcome = Inl e, final = snd (body_of func s), attempts = 1, slept = []\<rparr>"
  by (cases func)
    (simp_all add: with_retry_coroutine_function with_retry_plain_function retrying_rejects)

text \<open>A value returned by the first attempt is returned at once.\<close>

lemma with_retry_first_success:
  "fst (body_of func s) = Inr v \<Longrightarrow>
   with_retry rt func m i d b s =
     \<lparr>outcome = Inr v, final = snd (body_of func s), attempts = 1, slept = []\<rparr>"
  by (cases func)
    (simp_all add: with_retry_coroutine_function with_retry_plain_function retrying_returns)

lemma retry_strategy_accepts:
  "retry_if_exception_type [NetworkError_cls, ServerError_cls, RateLimitError_cls] e \<longleftrightarrow>
     class_of e = NetworkError_cls \<or> class_of e = ServerError_cls
       \<or> class_of e = RateLimitError_cls"
  by (auto simp: retry_if_exception_type_def isinstance_def)

text \<open>
  The strategy passed as \<^verbatim>\<open>retry=\<close> accepts every \<^verbatim>\<open>RateLimitError\<close>, whatever its
  \<^verbatim>\<open>retry_after\<close>; \<^verbatim>\<open>is_retryable_error\<close> would not.
\<close>

lemma retry_strategy_accepts_every_rate_limit:
  "retry_if_exception_type [NetworkError_cls, ServerError_cls, RateLimitError_cls]
     (RateLimitError msg ra)"
  by (simp add: retry_strategy_accepts)

lemma is_retryable_error_rate_limit:
  "is_retryable_error (RateLimitError msg ra) = (ra \<noteq> None)"
  by (simp add: is_retryable_error_def isinstance_def)

text \<open>
  The kinds that the invoker never retries: one attempt, and the exception of that
  attempt reaches the caller as it was raised.
\<close>

lemma non_retried_kinds_single_attempt:
  "fst (body_of func s) = Inl e \<Longrightarrow>
   class_of e \<in> {AuthenticationError_cls, ScopeError_cls, ValidationError_cls,
                 NotFoundError_cls, QuotaExceededError_cls} \<Longrightarrow>
   with_retry rt func m i d b s =
     \<lparr>outcome = Inl e, final = snd (body_of func s), attempts = 1, slept = []\<rparr>"
  by (rule with_retry_single_attempt) (auto simp: retry_strategy_accepts)

text \<open>
  A coroutine function that fails with a \<^verbatim>\<open>ServerError\<close> at every call, under a policy
  of at least one attempt: it is called \<^verbatim>\<open>max_attempts\<close> times, and one of its errors
  reaches the caller.
\<close>

lemma server_errors_retried_for_coroutine_function:
  assumes "1 \<le> m"
    and "\<forall>t. \<exists>e. fst (f t) = Inl e \<and> class_of e = ServerError_cls"
  shows "(\<exists>e. outcome (with_retry rt (Coroutine_function (counted f)) m i d b (s, 0)) = Inl e
               \<and> class_of e = ServerError_cls)
     \<and> attempts (with_retry rt (Coroutine_function (counted f)) m i d b (s, 0)) = m
     \<and> snd (final (with_retry rt (Coroutine_function (counted f)) m i d b (s, 0))) = nat m"
proof -
  let ?r = "retrying rt m i d b (counted f) 1 [] (s, 0)"
  have all: "\<forall>t. \<exists>e. fst (counted f t) = Inl e \<and> class_of e = ServerError_cls"
    using assms(2) by (simp add: counted_def split_beta)
  then obtain e where e: "outcome ?r = Inl e" "class_of e = ServerError_cls"
    using retrying_all_fail [of "counted f" "\<lambda>e. class_of e = ServerError_cls"]
    by blast
  then have "m \<le> attempts ?r"
    by (intro retrying_exhausted [where e = e]) (simp_all add: retry_strategy_accepts)
  moreover have "attempts ?r \<le> max 1 m"
    by (rule retrying_attempts_le)
  ultimately have att: "attempts ?r = m"
    using assms(1) by simp
  have "snd (final ?r) = 0 + nat (attempts ?r - 1) + 1"
    by (rule retrying_counts_calls)
  then have "snd (final ?r) = nat m"
    using att assms(1) by simp
  then show ?thesis
    using e att by (auto simp: with_retry_coroutine_function)
qed

text \<open>The wait strategy with its inner \<^verbatim>\<open>max(0, min)\<close> evaluated: \<^verbatim>\<open>max(0, 0)\<close> is 0.\<close>

lemma wait_exponential_eq:
  "wait_exponential rt i d b n =
     (case float_pow rt b (nat (n - 1)) of
        None \<Rightarrow> d
      | Some p \<Rightarrow>
          (case float_mul rt i p of
             None \<Rightarrow> d
           | Some x \<Rightarrow> py_max (Finite 0) (py_min x d)))"
  by (simp add: wait_exponential_def py_max_def split: option.splits)

lemmas retry_defs = with_retry_coroutine_function with_retry_plain_function retrying.simps
  retry_if_exception_type_def isinstance_def stop_after_attempt_def wait_exponential_def
  py_min_def py_max_def

section \<open>Claims\<close>

subsection \<open>C1: a rate-limit error without \<^verbatim>\<open>retry_after\<close>\<close>

text \<open>
  C1. The spec: a failure that is a \<^verbatim>\<open>RateLimitError\<close> is retried if and only if it
  carries a \<^verbatim>\<open>retry_after\<close> value, and one without it is propagated after a single
  attempt. The code: a coroutine function that always raises \<^verbatim>\<open>RateLimitError\<close> with
  \<^verbatim>\<open>retry_after=None\<close>, run by \<^verbatim>\<open>with_retry\<close> with three attempts, is called three
  times, with the first two delays of the schedule in between (1 and 2 seconds under
  the default policy), before the error reaches the caller; \<^verbatim>\<open>is_retryable_error\<close>,
  which holds the rule of the spec, says that this error is not to be retried, and is
  not consulted.
\<close>

theorem C1_rate_limit_without_retry_after_is_retried:
  "with_retry rt
     (Coroutine_function
        (counted (always_raises (RateLimitError (JStr ''Rate limit exceeded'') None)
                    :: unit \<Rightarrow> (exn + json) \<times> unit)))
     3 i d b ((), 0) =
     \<lparr>outcome = Inl (RateLimitError (JStr ''Rate limit exceeded'') None),
      final = ((), 3), attempts = 3,
      slept = [wait_exponential rt i d b 1, wait_exponential rt i d b 2]\<rparr>
   \<and> with_retry example_runtime
       (Coroutine_function
          (always_raises (RateLimitError (JStr ''Rate limit exceeded'') None)
             :: unit \<Rightarrow> (exn + json) \<times> unit))
       3 (Finite 1) (Finite 10) (Finite 2) () =
       \<lparr>outcome = Inl (RateLimitError (JStr ''Rate limit exceeded'') None),
        final = (), attempts = 3, slept = [Finite 1, Finite 2]\<rparr>
   \<and> is_retryable_error (RateLimitError (JStr ''Rate limit exceeded'') None) = False"
proof (intro conjI)
  show "with_retry rt
     (Coroutine_function
        (counted (always_raises (RateLimitError (JStr ''Rate limit exceeded'') None)
                    :: unit \<Rightarrow> (exn + json) \<times> unit)))
     3 i d b ((), 0) =
     \<lparr>outcome = Inl (RateLimitError (JStr ''Rate limit exceeded'') None),
      final = ((), 3), attempts = 3,
      slept = [wait_exponential rt i d b 1, wait_exponential rt i d b 2]\<rparr>"
    by (simp add: with_retry_coroutine_function retrying.simps retry_if_exception_type_def
          isinstance_def stop_after_attempt_def always_raises_def counted_def
          numeral_3_eq_3)
  show "with_retry example_runtime
       (Coroutine_function
          (always_raises (RateLimitError (JStr ''Rate limit exceeded'') None)
             :: unit \<Rightarrow> (exn + json) \<times> unit))
       3 (Finite 1) (Finite 10) (Finite 2) () =
       \<lparr>outcome = Inl (RateLimitError (JStr ''Rate limit exceeded'') None),
        final = (), attempts = 3, slept = [Finite 1, Finite 2]\<rparr>"
    by (simp add: retry_defs always_raises_def example_runtime_fields example_pow_def
          example_mul_def)
  show "is_retryable_error (RateLimitError (JStr ''Rate limit exceeded'') None) = False"
    by (simp add: is_retryable_error_def isinstance_def)
qed

subsection \<open>C2: the backoff schedule\<close>

text \<open>
  C2, as the spec states it: for every policy the delay before attempt \<open>k \<ge> 2\<close> is
  \<open>min (initial_delay * exponential_base ^ (k - 2)) max_delay\<close>. With
  \<open>initial_delay = -1\<close> the formula gives \<open>-1\<close> before the second attempt, and the
  invoker sleeps for 0 seconds: the wait strategy never returns less than 0. (The
  product \<open>-1.0 * 2.0 ** 0\<close> is exact in floating point.)
\<close>

theorem C2_counterexample:
  "slept (with_retry example_runtime
            (Coroutine_function
               (always_raises (ServerError (JStr ''Server error'') 500)
                  :: unit \<Rightarrow> (exn + json) \<times> unit))
            2 (Finite (- 1)) (Finite 10) (Finite 2) ()) ! nat (2 - 2)
   \<noteq> Finite (min ((- 1) * 2 ^ nat (2 - 2)) 10)"
  by (simp add: retry_defs always_raises_def example_runtime_fields example_pow_def
        example_mul_def)

text \<open>
  C2, amended: whatever the operand does and whatever the policy is, each attempt is
  one call of the operand, no delay precedes the first attempt (there is one delay less
  than there are attempts), and the delay
  before attempt \<open>k \<ge> 2\<close> is \<^verbatim>\<open>max(0, min(initial_delay * exponential_base ** (k - 2),
  max_delay))\<close> as Python's float arithmetic computes it, and \<^verbatim>\<open>max_delay\<close> when the
  power or the product raises \<^verbatim>\<open>OverflowError\<close>. With \<open>initial_delay = 1.0\<close>,
  \<open>max_delay = 10.0\<close>, \<open>exponential_base = 2.0\<close>, \<open>max_attempts = 5\<close>, where the four
  powers and products are exact, the delays are \<open>1, 2, 4, 8\<close>, as many of them as
  attempts followed the first.
\<close>

theorem C2_backoff_schedule:
  fixes func :: "('a, 's) operand"
  shows
    "length (slept (with_retry rt func m i d b s))
       = nat (attempts (with_retry rt func m i d b s) - 1)
     \<and> snd (final (with_retry rt (Coroutine_function (counted f)) m i d b (t, c)))
         = c + nat (attempts (with_retry rt (Coroutine_function (counted f)) m i d b (t, c)))
     \<and> snd (final (with_retry rt (Plain_function (counted f)) m i d b (t, c)))
         = c + nat (attempts (with_retry rt (Plain_function (counted f)) m i d b (t, c)))
     \<and> (\<forall>k. 2 \<le> k \<and> k \<le> attempts (with_retry rt func m i d b s) \<longrightarrow>
           slept (with_retry rt func m i d b s) ! nat (k - 2) =
             (case float_pow rt b (nat (k - 2)) of
                None \<Rightarrow> d
              | Some p \<Rightarrow>
                  (case float_mul rt i p of
                     None \<Rightarrow> d
                   | Some x \<Rightarrow> py_max (Finite 0) (py_min x d))))
     \<and> (float_pow rt (Finite 2) 0 = Some (Finite 1)
          \<and> float_pow rt (Finite 2) 1 = Some (Finite 2)
          \<and> float_pow rt (Finite 2) 2 = Some (Finite 4)
          \<and> float_pow rt (Finite 2) 3 = Some (Finite 8)
          \<and> float_mul rt (Finite 1) (Finite 1) = Some (Finite 1)
          \<and> float_mul rt (Finite 1) (Finite 2) = Some (Finite 2)
          \<and> float_mul rt (Finite 1) (Finite 4) = Some (Finite 4)
          \<and> float_mul rt (Finite 1) (Finite 8) = Some (Finite 8)
        \<longrightarrow> slept (with_retry rt func 5 (Finite 1) (Finite 10) (Finite 2) s) =
              take (nat (attempts (with_retry rt func 5 (Finite 1) (Finite 10) (Finite 2) s)
                           - 1))
                [Finite 1, Finite 2, Finite 4, Finite 8])"
proof (intro conjI allI impI)
  let ?r = "with_retry rt func m i d b s"
  show "length (slept ?r) = nat (attempts ?r - 1)"
    by (simp add: with_retry_slept)
  show "snd (final (with_retry rt (Coroutine_function (counted f)) m i d b (t, c)))
         = c + nat (attempts (with_retry rt (Coroutine_function (counted f)) m i d b (t, c)))"
    by (rule with_retry_counts_calls)
  show "snd (final (with_retry rt (Plain_function (counted f)) m i d b (t, c)))
         = c + nat (attempts (with_retry rt (Plain_function (counted f)) m i d b (t, c)))"
    by (rule with_retry_counts_calls)
  show "slept ?r ! nat (k - 2) =
          (case float_pow rt b (nat (k - 2)) of
             None \<Rightarrow> d
           | Some p \<Rightarrow>
               (case float_mul rt i p of
                  None \<Rightarrow> d
                | Some x \<Rightarrow> py_max (Finite 0) (py_min x d)))"
    if "2 \<le> k \<and> k \<le> attempts ?r" for k
  proof -
    have "slept ?r ! nat (k - 2) =
            wait_exponential rt i d b ([1 .. attempts ?r - 1] ! nat (k - 2))"
      using that by (subst with_retry_slept) (simp del: nth_upto)
    also have "[1 .. attempts ?r - 1] ! nat (k - 2) = k - 1"
      using that by simp
    finally have "slept ?r ! nat (k - 2) = wait_exponential rt i d b (k - 1)" .
    moreover have "nat (k - 1 - 1) = nat (k - 2)"
      by simp
    ultimately show ?thesis
      by (simp add: wait_exponential_eq)
  qed
  let ?q = "with_retry rt func 5 (Finite 1) (Finite 10) (Finite 2) s"
  assume exact: "float_pow rt (Finite 2) 0 = Some (Finite 1)
          \<and> float_pow rt (Finite 2) 1 = Some (Finite 2)
          \<and> float_pow rt (Finite 2) 2 = Some (Finite 4)
          \<and> float_pow rt (Finite 2) 3 = Some (Finite 8)
          \<and> float_mul rt (Finite 1) (Finite 1) = Some (Finite 1)
          \<and> float_mul rt (Finite 1) (Finite 2) = Some (Finite 2)
          \<and> float_mul rt (Finite 1) (Finite 4) = Some (Finite 4)
          \<and> float_mul rt (Finite 1) (Finite 8) = Some (Finite 8)"
  have w: "wait_exponential rt (Finite 1) (Finite 10) (Finite 2) 1 = Finite 1"
    "wait_exponential rt (Finite 1) (Finite 10) (Finite 2) 2 = Finite 2"
    "wait_exponential rt (Finite 1) (Finite 10) (Finite 2) 3 = Finite 4"
    "wait_exponential rt (Finite 1) (Finite 10) (Finite 2) 4 = Finite 8"
    using exact by (simp_all add: wait_exponential_def py_max_def py_min_def)
  have "1 \<le> attempts ?q" "attempts ?q \<le> 5"
    using with_retry_attempts_ge [of rt func 5 "Finite 1" "Finite 10" "Finite 2" s]
      with_retry_attempts_le [of rt func 5 "Finite 1" "Finite 10" "Finite 2" s]
    by simp_all
  then consider "attempts ?q = 1" | "attempts ?q = 2" | "attempts ?q = 3"
    | "attempts ?q = 4" | "attempts ?q = 5"
    by linarith
  then show "slept ?q = take (nat (attempts ?q - 1)) [Finite 1, Finite 2, Finite 4, Finite 8]"
    by cases
      (simp_all add: with_retry_slept [of rt func 5 "Finite 1" "Finite 10" "Finite 2" s]
         w upto_rec1)
qed

text \<open>The schedule of C2 on a coroutine function that fails five times with a 500.\<close>

theorem C2_backoff_schedule_witness:
  "(2::int) \<le> 5
   \<and> 5 \<le> attempts (with_retry example_runtime
                  (Coroutine_function
                     (always_raises (ServerError (JStr ''Server error'') 500)
                        :: unit \<Rightarrow> (exn + json) \<times> unit))
                  5 (Finite 1) (Finite 10) (Finite 2) ())
   \<and> float_pow example_runtime (Finite 2) 3 = Some (Finite 8)
   \<and> float_mul example_runtime (Finite 1) (Finite 8) = Some (Finite 8)
   \<and> slept (with_retry example_runtime
              (Coroutine_function
                 (always_raises (ServerError (JStr ''Server error'') 500)
                    :: unit \<Rightarrow> (exn + json) \<times> unit))
              5 (Finite 1) (Finite 10) (Finite 2) ()) ! nat (5 - 2) = Finite 8
   \<and> slept (with_retry example_runtime
              (Coroutine_function
                 (always_raises (ServerError (JStr ''Server error'') 500)
                    :: unit \<Rightarrow> (exn + json) \<times> unit))
              5 (Finite 1) (Finite 10) (Finite 2) ())
       = [Finite 1, Finite 2, Finite 4, Finite 8]"
proof -
  let ?f = "Coroutine_function
              (always_raises (ServerError (JStr ''Server error'') 500)
                 :: unit \<Rightarrow> (exn + json) \<times> unit)"
  have att: "attempts (with_retry example_runtime ?f 5 (Finite 1) (Finite 10) (Finite 2) ())
               = 5"
    by (simp add: with_retry_coroutine_function retrying.simps retry_if_exception_type_def
          isinstance_def stop_after_attempt_def always_raises_def)
  have exact: "float_pow example_runtime (Finite 2) 0 = Some (Finite 1)"
    "float_pow example_runtime (Finite 2) 1 = Some (Finite 2)"
    "float_pow example_runtime (Finite 2) 2 = Some (Finite 4)"
    "float_pow example_runtime (Finite 2) 3 = Some (Finite 8)"
    "float_mul example_runtime (Finite 1) (Finite 1) = Some (Finite 1)"
    "float_mul example_runtime (Finite 1) (Finite 2) = Some (Finite 2)"
    "float_mul example_runtime (Finite 1) (Finite 4) = Some (Finite 4)"
    "float_mul example_runtime (Finite 1) (Finite 8) = Some (Finite 8)"
    by (simp_all add: example_runtime_fields example_pow_def example_mul_def)
  show ?thesis
    using C2_backoff_schedule
            [where rt = example_runtime and func = ?f and m = 5 and i = "Finite 1"
               and d = "Finite 10" and b = "Finite 2" and s = "()"
               and f = "always_raises (ServerError (JStr ''Server error'') 500)
                          :: unit \<Rightarrow> (exn + json) \<times> unit"
               and t = "()" and c = 0]
      att exact
    by simp
qed

subsection \<open>C3: the snapshot follows the latest response that carries values\<close>




subsection \<open>C4: status 429\<close>

text \<open>
  C4. The spec: every response with status 429 is classified as \<^verbatim>\<open>QuotaExceededError\<close>
  or as \<^verbatim>\<open>RateLimitError\<close>. The code: a 429 whose body nests the error in an object
  (\<^verbatim>\<open>{"error": {"code": "rate_limited"}}\<close>) has an extracted message that is a dict, and
  \<^verbatim>\<open>error_message.lower()\<close> raises \<^verbatim>\<open>AttributeError\<close>, which \<^verbatim>\<open>request\<close> lets through: the
  response is classified as neither. The same body with status 503 is classified, as a
  \<^verbatim>\<open>ServerError\<close> that carries the dict as its message.
\<close>

theorem C4_nested_error_body_on_429:
  "resp_status_code (nested_error 429) = 429
   \<and> error_message (nested_error 429) = JObj [(''code'', JStr ''rate_limited'')]
   \<and> handle_error_response rt (nested_error 429) = Inl AttributeError
   \<and> request rt fresh_client (Inr (nested_error 429)) = (Inl AttributeError, fresh_client)
   \<and> handle_error_response rt (nested_error 503)
       = Inl (ServerError (JObj [(''code'', JStr ''rate_limited'')]) 503)"
proof -
  have sc: "resp_status_code (nested_error 429) = 429"
    by (simp add: nested_error_def example_defs)
  have msg: "error_message (nested_error sc) = JObj [(''code'', JStr ''rate_limited'')]" for sc
    by (simp add: nested_error_def example_defs error_message_def dict_get_def)
  have h: "handle_error_response rt (nested_error 429) = Inl AttributeError"
    using sc msg [of 429] by (intro classify_429_other_message) simp_all
  have "update_rate_limit rt fresh_client (nested_error 429) = Inr fresh_client"
    by (simp add: update_rate_limit_def carries_rate_limit_def header_truthy_def
          nested_error_def example_defs)
  moreover have "\<not> is_success (nested_error 429)"
    by (simp add: is_success_def nested_error_def example_defs)
  ultimately have r: "request rt fresh_client (Inr (nested_error 429))
                        = (Inl AttributeError, fresh_client)"
    by (simp add: request_def h except_RequestError_def)
  have "resp_status_code (nested_error 503) = 503"
    by (simp add: nested_error_def example_defs)
  then have "handle_error_response rt (nested_error 503)
       = Inl (ServerError (JObj [(''code'', JStr ''rate_limited'')]) 503)"
    using classify_server [of "nested_error 503" rt] msg [of 503] by simp
  then show ?thesis
    using sc msg [of 429] h r by simp
qed

subsection \<open>C5: server errors\<close>

text \<open>
  C5. The spec: a response with a status from 500 to 599 is classified as a
  \<^verbatim>\<open>ServerError\<close>, and the invoker retries such a failure up to \<^verbatim>\<open>max_attempts\<close> attempts
  before propagating it. The code: the 503 is classified as the spec says, but when the
  operand of \<^verbatim>\<open>with_retry\<close> is a \<^verbatim>\<open>lambda\<close>, as at most call sites of the resources, the
  transport is called once, nothing is slept, and the \<^verbatim>\<open>ServerError\<close> of that one call
  reaches the caller, although three attempts were allowed. The same operation declared
  with \<^verbatim>\<open>async def\<close> is called three times.
\<close>

theorem C5_lambda_operand_is_not_retried:
  "handle_error_response rt unavailable
     = Inl (ServerError (JStr ''Service Unavailable'') 503)
   \<and> with_retry rt (Plain_function (counted (call_once rt unavailable)))
       3 i d b (fresh_client, 0)
       = \<lparr>outcome = Inl (ServerError (JStr ''Service Unavailable'') 503),
          final = (fresh_client, 1), attempts = 1, slept = []\<rparr>
   \<and> with_retry rt (Coroutine_function (counted (call_once rt unavailable)))
       3 i d b (fresh_client, 0)
       = \<lparr>outcome = Inl (ServerError (JStr ''Service Unavailable'') 503),
          final = (fresh_client, 3), attempts = 3,
          slept = [wait_exponential rt i d b 1, wait_exponential rt i d b 2]\<rparr>"
proof -
  have sc: "resp_status_code unavailable = 503"
    and msg: "error_message unavailable = JStr ''Service Unavailable''"
    by (simp_all add: unavailable_def example_defs error_message_def fallback_message_def)
  have cls: "handle_error_response rt unavailable
               = Inl (ServerError (JStr ''Service Unavailable'') 503)"
    using classify_server [of unavailable rt] sc msg by simp
  have call: "call_once rt unavailable c
                = (Inl (ServerError (JStr ''Service Unavailable'') 503), c)" for c
  proof -
    have "update_rate_limit rt c unavailable = Inr c"
      by (simp add: update_rate_limit_def carries_rate_limit_def header_truthy_def
            unavailable_def example_defs)
    moreover have "\<not> is_success unavailable"
      by (simp add: is_success_def unavailable_def example_defs)
    ultimately show ?thesis
      by (simp add: call_once_def request_def cls except_RequestError_def)
  qed
  have plain: "with_retry rt (Plain_function (counted (call_once rt unavailable)))
       3 i d b (fresh_client, 0)
       = \<lparr>outcome = Inl (ServerError (JStr ''Service Unavailable'') 503),
          final = (fresh_client, 1), attempts = 1, slept = []\<rparr>"
    by (simp add: with_retry_plain_function counted_def call)
  have coro: "with_retry rt (Coroutine_function (counted (call_once rt unavailable)))
       3 i d b (fresh_client, 0)
       = \<lparr>outcome = Inl (ServerError (JStr ''Service Unavailable'') 503),
          final = (fresh_client, 3), attempts = 3,
          slept = [wait_exponential rt i d b 1, wait_exponential rt i d b 2]\<rparr>"
    by (simp add: with_retry_coroutine_function retrying.simps retry_if_exception_type_def
          isinstance_def stop_after_attempt_def counted_def call numeral_3_eq_3)
  show ?thesis
    using cls plain coro by simp
qed

subsection \<open>C6: statuses 401, 403, 400 and 404\<close>

text \<open>
  C6. The spec: a response with status 400 is classified as a \<^verbatim>\<open>ValidationError\<close>, and
  the invoker passes that error on after one attempt. The code: when the body of the 400
  is not JSON, \<^verbatim>\<open>response.json()\<close> raises inside the \<^verbatim>\<open>try\<close> block before
  \<^verbatim>\<open>error_data\<close> is bound, and the branch for 400 then reads \<^verbatim>\<open>error_data\<close>:
  \<^verbatim>\<open>_handle_error_response\<close> raises \<^verbatim>\<open>UnboundLocalError\<close>, \<^verbatim>\<open>request\<close> lets it through,
  and the caller of the invoker receives it in place of a \<^verbatim>\<open>ValidationError\<close>, whichever
  kind of operand made the call.
\<close>

theorem C6_bad_request_without_json_body:
  "resp_status_code bad_request_plain = 400
   \<and> handle_error_response rt bad_request_plain = Inl UnboundLocalError
   \<and> request rt fresh_client (Inr bad_request_plain) = (Inl UnboundLocalError, fresh_client)
   \<and> with_retry rt (Coroutine_function (call_once rt bad_request_plain)) 3 i d b fresh_client
       = \<lparr>outcome = Inl UnboundLocalError, final = fresh_client, attempts = 1, slept = []\<rparr>
   \<and> with_retry rt (Plain_function (call_once rt bad_request_plain)) 3 i d b fresh_client
       = \<lparr>outcome = Inl UnboundLocalError, final = fresh_client, attempts = 1, slept = []\<rparr>"
proof -
  have sc: "resp_status_code bad_request_plain = 400"
    by (simp add: bad_request_plain_def example_defs)
  have h: "handle_error_response rt bad_request_plain = Inl UnboundLocalError"
    by (simp add: handle_error_response_def bad_request_plain_def example_defs
          error_data_def)
  have "update_rate_limit rt fresh_client bad_request_plain = Inr fresh_client"
    by (simp add: update_rate_limit_def carries_rate_limit_def header_truthy_def
          bad_request_plain_def example_defs)
  moreover have "\<not> is_success bad_request_plain"
    by (simp add: is_success_def bad_request_plain_def example_defs)
  ultimately have
    r: "request rt fresh_client (Inr bad_request_plain)
          = (Inl UnboundLocalError, fresh_client)"
    by (simp add: request_def h except_RequestError_def)
  have "with_retry rt func 3 i d b fresh_client
       = \<lparr>outcome = Inl UnboundLocalError, final = fresh_client, attempts = 1, slept = []\<rparr>"
    if "body_of func = call_once rt bad_request_plain" for func :: "(response, HttpClient) operand"
    using that
    by (simp add: with_retry_single_attempt [where e = UnboundLocalError] call_once_def r
          retry_strategy_accepts)
  from this [of "Coroutine_function (call_once rt bad_request_plain)"]
    this [of "Plain_function (call_once rt bad_request_plain)"]
  show ?thesis
    using sc h r by simp
qed

subsection \<open>C7: the format of the API key\<close>

text \<open>
  C7, as the spec states it: construction succeeds for every key with one of the two
  prefixes. The key \<open>nr_live_\<close> followed by the letter e with an acute accent has the
  prefix and passes both checks of \<^verbatim>\<open>NorthRelay.__init__\<close>; the constructor of the
  transport then hands \<^verbatim>\<open>Bearer <key>\<close> to httpx as a header value, httpx encodes header
  values as ASCII, and the construction raises \<^verbatim>\<open>UnicodeEncodeError\<close>.
\<close>

theorem C7_counterexample:
  "startswith_any (''nr_live_'' @ [CHR 0xE9]) [''nr_live_'', ''nr_test_'']
   \<and> NorthRelay_init example_runtime (''nr_live_'' @ [CHR 0xE9])
         ''https://app.northrelay.ca'' (Finite 30) 3 (Finite 1) (Finite 10)
       = Inl UnicodeEncodeError"
  by (simp add: NorthRelay_init_def HttpClient_init_def startswith_any_def startswith_def
        example_runtime_fields example_AsyncClient_def is_ascii_def)

text \<open>
  C7, amended: for every key that starts with neither \<open>nr_live_\<close> nor \<open>nr_test_\<close> (the
  empty string too), \<^verbatim>\<open>NorthRelay.__init__\<close> raises a \<^verbatim>\<open>ValueError\<close> with a message, in
  its first two statements: neither the HTTP client nor the network is touched. For
  every key with one of the two prefixes the checks pass, and construction succeeds
  whenever the HTTP library accepts the arguments of its client; the client then holds
  the key and has seen no response. \<open>invalid_key\<close> and the empty string are refused;
  \<open>nr_live_x\<close> and \<open>nr_test_x\<close> are accepted.
\<close>

theorem C7_api_key_format:
  "((\<forall>rest. key \<noteq> ''nr_live_'' @ rest \<and> key \<noteq> ''nr_test_'' @ rest) \<longrightarrow>
      (\<exists>msg. NorthRelay_init rt key url tmo mr rd mrd = Inl (ValueError msg) \<and> msg \<noteq> []))
   \<and> ((\<exists>rest. key = ''nr_live_'' @ rest \<or> key = ''nr_test_'' @ rest)
        \<and> AsyncClient rt (rstrip_slash url) tmo
             [(''Authorization'', ''Bearer '' @ key),
              (''Content-Type'', ''application/json''),
              (''User-Agent'', ''northrelay-python/1.1.0'')] = None
      \<longrightarrow> (\<exists>c. NorthRelay_init rt key url tmo mr rd mrd = Inr c \<and> api_key (http c) = key
              \<and> rate_limit_info (http c) = None))
   \<and> isl (NorthRelay_init rt ''invalid_key'' url tmo mr rd mrd)
   \<and> isl (NorthRelay_init rt [] url tmo mr rd mrd)
   \<and> \<not> isl (NorthRelay_init example_runtime ''nr_live_x'' ''https://app.northrelay.ca''
              (Finite 30) 3 (Finite 1) (Finite 10))
   \<and> \<not> isl (NorthRelay_init example_runtime ''nr_test_x'' ''https://app.northrelay.ca''
              (Finite 30) 3 (Finite 1) (Finite 10))"
proof (intro conjI impI)
  assume "\<forall>rest. key \<noteq> ''nr_live_'' @ rest \<and> key \<noteq> ''nr_test_'' @ rest"
  then have "\<not> startswith_any key [''nr_live_'', ''nr_test_'']"
    by (simp add: startswith_any_prefixes)
  then show "\<exists>msg. NorthRelay_init rt key url tmo mr rd mrd = Inl (ValueError msg)
               \<and> msg \<noteq> []"
    by (simp add: NorthRelay_init_def)
next
  assume a: "(\<exists>rest. key = ''nr_live_'' @ rest \<or> key = ''nr_test_'' @ rest)
        \<and> AsyncClient rt (rstrip_slash url) tmo
             [(''Authorization'', ''Bearer '' @ key),
              (''Content-Type'', ''application/json''),
              (''User-Agent'', ''northrelay-python/1.1.0'')] = None"
  then have "startswith_any key [''nr_live_'', ''nr_test_'']"
    by (auto simp: startswith_any_prefixes)
  moreover have "key \<noteq> []"
    using a by auto
  ultimately show "\<exists>c. NorthRelay_init rt key url tmo mr rd mrd = Inr c
      \<and> api_key (http c) = key \<and> rate_limit_info (http c) = None"
    using a by (simp add: NorthRelay_init_def HttpClient_init_def)
next
  show "isl (NorthRelay_init rt ''invalid_key'' url tmo mr rd mrd)"
    by (simp add: NorthRelay_init_def startswith_any_def startswith_def)
  show "isl (NorthRelay_init rt [] url tmo mr rd mrd)"
    by (simp add: NorthRelay_init_def)
  show "\<not> isl (NorthRelay_init example_runtime ''nr_live_x'' ''https://app.northrelay.ca''
              (Finite 30) 3 (Finite 1) (Finite 10))"
    by (simp add: NorthRelay_init_def HttpClient_init_def startswith_any_def startswith_def
          example_runtime_fields example_AsyncClient_def is_ascii_def)
  show "\<not> isl (NorthRelay_init example_runtime ''nr_test_x'' ''https://app.northrelay.ca''
              (Finite 30) 3 (Finite 1) (Finite 10))"
    by (simp add: NorthRelay_init_def HttpClient_init_def startswith_any_def startswith_def
          example_runtime_fields example_AsyncClient_def is_ascii_def)
qed

text \<open>C7 on the keys \<open>invalid_key\<close> and \<open>nr_live_x\<close>, with the default arguments.\<close>

theorem C7_api_key_format_witness:
  "(\<forall>rest. ''invalid_key'' \<noteq> ''nr_live_'' @ rest \<and> ''invalid_key'' \<noteq> ''nr_test_'' @ rest)
   \<and> (\<exists>msg. NorthRelay_init example_runtime ''invalid_key'' ''https://app.northrelay.ca''
               (Finite 30) 3 (Finite 1) (Finite 10)
              = Inl (ValueError msg) \<and> msg \<noteq> [])
   \<and> (\<exists>rest. ''nr_live_x'' = ''nr_live_'' @ rest \<or> ''nr_live_x'' = ''nr_test_'' @ rest)
   \<and> AsyncClient example_runtime (rstrip_slash ''https://app.northrelay.ca'') (Finite 30)
        [(''Authorization'', ''Bearer '' @ ''nr_live_x''),
         (''Content-Type'', ''application/json''),
         (''User-Agent'', ''northrelay-python/1.1.0'')] = None
   \<and> (\<exists>c. NorthRelay_init example_runtime ''nr_live_x'' ''https://app.northrelay.ca''
             (Finite 30) 3 (Finite 1) (Finite 10) = Inr c
          \<and> api_key (http c) = ''nr_live_x'' \<and> rate_limit_info (http c) = None)"
proof -
  have no: "\<forall>rest. ''invalid_key'' \<noteq> ''nr_live_'' @ rest
              \<and> ''invalid_key'' \<noteq> ''nr_test_'' @ rest"
    by simp
  have yes: "\<exists>rest. ''nr_live_x'' = ''nr_live_'' @ rest \<or> ''nr_live_x'' = ''nr_test_'' @ rest"
    by simp
  have ok: "AsyncClient example_runtime (rstrip_slash ''https://app.northrelay.ca'')
        (Finite 30)
        [(''Authorization'', ''Bearer '' @ ''nr_live_x''),
         (''Content-Type'', ''application/json''),
         (''User-Agent'', ''northrelay-python/1.1.0'')] = None"
    by (simp add: example_runtime_fields example_AsyncClient_def is_ascii_def)
  have refused: "\<exists>msg. NorthRelay_init example_runtime ''invalid_key''
               ''https://app.northrelay.ca'' (Finite 30) 3 (Finite 1) (Finite 10)
              = Inl (ValueError msg) \<and> msg \<noteq> []"
    using C7_api_key_format
            [where rt = example_runtime and key = "''invalid_key''"
               and url = "''https://app.northrelay.ca''" and tmo = "Finite 30" and mr = 3
               and rd = "Finite 1" and mrd = "Finite 10"] no
    by blast
  have accepted: "\<exists>c. NorthRelay_init example_runtime ''nr_live_x''
             ''https://app.northrelay.ca'' (Finite 30) 3 (Finite 1) (Finite 10) = Inr c
          \<and> api_key (http c) = ''nr_live_x'' \<and> rate_limit_info (http c) = None"
    using C7_api_key_format
            [where rt = example_runtime and key = "''nr_live_x''"
               and url = "''https://app.northrelay.ca''" and tmo = "Finite 30" and mr = 3
               and rd = "Finite 1" and mrd = "Finite 10"] yes ok
    by blast
  show ?thesis
    using no yes ok refused accepted by blast
qed

subsection \<open>C8: a connection failure leaves the snapshot alone\<close>

text \<open>
  C8. When \<^verbatim>\<open>self.client.request\<close> raises an \<^verbatim>\<open>httpx.RequestError\<close>, \<^verbatim>\<open>request\<close> raises a
  \<^verbatim>\<open>NetworkError\<close> that wraps it and returns the client exactly as it was; and whenever
  the snapshot after a call differs from the one before, the call had received a
  response.
\<close>

theorem C8_connection_failure_keeps_snapshot:
  "request rt self (Inl (RequestError cause)) =
     (Inl (NetworkError (JStr (''Network error: '' @ cause)) (Some (RequestError cause))),
      self)
   \<and> (rate_limit_info (snd (request rt self sent)) \<noteq> rate_limit_info self
        \<longrightarrow> (\<exists>r. sent = Inr r))"
  by (auto simp: request_def except_RequestError_def split: sum.splits)

text \<open>C8 on a time-out, and on a response that does change the snapshot.\<close>

theorem C8_connection_failure_keeps_snapshot_witness:
  "request example_runtime fresh_client (Inl (RequestError ''timed out'')) =
     (Inl (NetworkError (JStr ''Network error: timed out'')
             (Some (RequestError ''timed out''))),
      fresh_client)
   \<and> rate_limit_info (snd (request example_runtime fresh_client (Inr ok_with_limits)))
       \<noteq> rate_limit_info fresh_client
   \<and> (\<exists>r. (Inr ok_with_limits :: exn + response) = Inr r)"
proof -
  have changed:
    "rate_limit_info (snd (request example_runtime fresh_client (Inr ok_with_limits)))
       \<noteq> rate_limit_info fresh_client"
    by (simp add: request_def update_rate_limit_def carries_rate_limit_def
          ok_with_limits_def example_defs header_truthy_def int_if_truthy_def
          datetime_if_truthy_def example_runtime_fields example_int_values is_success_def
          fresh_client_def)
  show ?thesis
    using C8_connection_failure_keeps_snapshot
            [where rt = example_runtime and self = fresh_client and cause = "''timed out''"
               and sent = "Inr ok_with_limits"]
      changed
    by simp
qed

subsection \<open>C9: the \<^verbatim>\<open>errors\<close> attribute of a \<^verbatim>\<open>ValidationError\<close>\<close>

text \<open>
  C9, as the spec states it: the \<^verbatim>\<open>errors\<close> attribute of every \<^verbatim>\<open>ValidationError\<close> that
  classification produces is a list. A 400 whose body gives the field errors as an
  object (\<^verbatim>\<open>{"message": ..., "errors": {"email": "is required"}}\<close>) yields a
  \<^verbatim>\<open>ValidationError\<close> whose \<^verbatim>\<open>errors\<close> is that object, a dict: \<^verbatim>\<open>errors or []\<close> keeps
  every truthy value as it is.
\<close>

theorem C9_counterexample:
  "handle_error_response example_runtime bad_request_fields =
     Inl (ValidationError (JStr ''Validation failed'')
            (JObj [(''email'', JStr ''is required'')]))
   \<and> \<not> is_list (JObj [(''email'', JStr ''is required'')])"
  by (simp add: handle_error_response_def bad_request_fields_def example_defs
        error_message_def error_data_def dict_get_def ValidationError_init_def)

text \<open>
  C9, amended: the \<^verbatim>\<open>errors\<close> attribute of every \<^verbatim>\<open>ValidationError\<close> that classification
  of a 400 response produces is never \<^verbatim>\<open>None\<close>. It is the empty list when the parsed
  body is not a JSON object, when the object has no \<^verbatim>\<open>errors\<close> field, and when the value
  of that field is falsy; in every other case it is the value of the field, whatever
  its type: a list exactly when the body gives a list.
\<close>

theorem C9_validation_errors_attribute:
  assumes "resp_status_code r = 400"
    and "handle_error_response rt r = Inl (ValidationError msg es)"
  shows
    "es \<noteq> JNull
     \<and> ((\<forall>kvs. resp_json r \<noteq> Some (JObj kvs)) \<longrightarrow> es = JArr [])
     \<and> (\<forall>kvs. resp_json r = Some (JObj kvs) \<and> map_of kvs ''errors'' = None
          \<longrightarrow> es = JArr [])
     \<and> (\<forall>kvs v. resp_json r = Some (JObj kvs) \<and> map_of kvs ''errors'' = Some v
                \<and> \<not> truthy v
          \<longrightarrow> es = JArr [])
     \<and> (\<forall>kvs v. resp_json r = Some (JObj kvs) \<and> map_of kvs ''errors'' = Some v \<and> truthy v
          \<longrightarrow> es = v \<and> (is_list es \<longleftrightarrow> is_list v))"
proof -
  from validation_error_of_400 [OF assms] obtain d where
    d: "resp_json r = Some d" and
    es: "es = (let v = (case d of JObj kvs \<Rightarrow> dict_get kvs ''errors'' JNull | _ \<Rightarrow> JNull)
               in if truthy v then v else JArr [])"
    by blast
  show ?thesis
  proof (cases d)
    case (JObj kvs)
    show ?thesis
    proof (cases "map_of kvs ''errors''")
      case None
      then show ?thesis using d es JObj by (simp add: dict_get_def)
    next
      case (Some v)
      then show ?thesis using d es JObj
        by (cases v) (auto simp: dict_get_def Let_def)
    qed
  qed (use d es in auto)
qed

text \<open>
  C9 on a 400 whose body lists one field error, and on the one whose body gives an
  object.
\<close>

theorem C9_validation_errors_attribute_witness:
  "resp_status_code bad_request_list = 400
   \<and> handle_error_response example_runtime bad_request_list =
       Inl (ValidationError (JStr ''Validation failed'')
              (JArr [JObj [(''field'', JStr ''email'')]]))
   \<and> resp_json bad_request_list =
       Some (JObj [(''message'', JStr ''Validation failed''),
                   (''errors'', JArr [JObj [(''field'', JStr ''email'')]])])
   \<and> truthy (JArr [JObj [(''field'', JStr ''email'')]])
   \<and> JArr [JObj [(''field'', JStr ''email'')]] \<noteq> JNull
   \<and> is_list (JArr [JObj [(''field'', JStr ''email'')]])"
proof -
  have sc: "resp_status_code bad_request_list = 400"
    by (simp add: bad_request_list_def example_defs)
  have h: "handle_error_response example_runtime bad_request_list =
     Inl (ValidationError (JStr ''Validation failed'')
            (JArr [JObj [(''field'', JStr ''email'')]]))"
    by (simp add: handle_error_response_def bad_request_list_def example_defs
          error_message_def error_data_def dict_get_def ValidationError_init_def)
  have j: "resp_json bad_request_list =
       Some (JObj [(''message'', JStr ''Validation failed''),
                   (''errors'', JArr [JObj [(''field'', JStr ''email'')]])])"
    by (simp add: bad_request_list_def example_defs)
  have "JArr [JObj [(''field'', JStr ''email'')]] \<noteq> JNull"
    using C9_validation_errors_attribute [OF sc h] by blast
  then show ?thesis
    using sc h j by simp
qed

subsection \<open>C10: the body of a DELETE\<close>



end
